theory Spec2Isabelle
  imports Main
begin

section \<open>Values, faults and the external collaborators\<close>

text \<open>
  The program is \<^verbatim>\<open>src/index.ts\<close>: four actions registered on a Kernel app. Each
  action is an async function whose only effects are calls to two external
  collaborators (the Kernel SDK client \<^verbatim>\<open>kernel\<close> and the Magnitude agent) and to the
  console. An action is modelled as a function from the behaviour of the collaborators
  (\<open>Env\<close>) and its arguments to a pair: how it completes (\<open>Inl\<close> a thrown value that
  leaves the action, \<open>Inr\<close> the returned object) and the list of effects in the order
  they happened. \<^verbatim>\<open>await\<close> is sequencing: an awaited call returns or throws before the
  next statement runs. One call of the program is not awaited (line 247).
\<close>

text \<open>
  JavaScript values (\<^verbatim>\<open>any\<close> in the source). \<open>JUndefined\<close> is \<^verbatim>\<open>undefined\<close>: what a
  call resolves to when it returns nothing.
\<close>

datatype jsval =
    JUndefined
  | JNull
  | JBool bool
  | JNum int
  | JStr string
  | JObj "(string \<times> jsval) list"

text \<open>
  A thrown value. The source tells three kinds apart: \<^verbatim>\<open>error instanceof ConflictError\<close>
  (line 42) and \<^verbatim>\<open>error instanceof Error ? error.message : String(error)\<close> (line 236).
  \<open>ConflictError\<close> and \<open>ErrorObj\<close> carry the \<^verbatim>\<open>message\<close> of an \<^verbatim>\<open>Error\<close> instance (the SDK's
  ConflictError is an Error subclass); \<open>NonError\<close> carries the \<^verbatim>\<open>String(...)\<close> rendering of
  any other thrown value.
\<close>

datatype thrown =
    ConflictError string
  | ErrorObj string
  | NonError string

fun instanceof_ConflictError :: "thrown \<Rightarrow> bool" where
  "instanceof_ConflictError (ConflictError m) = True"
| "instanceof_ConflictError (ErrorObj m) = False"
| "instanceof_ConflictError (NonError s) = False"

text \<open>\<^verbatim>\<open>error instanceof Error ? error.message : String(error)\<close>\<close>

fun error_message :: "thrown \<Rightarrow> string" where
  "error_message (ConflictError m) = m"
| "error_message (ErrorObj m) = m"
| "error_message (NonError s) = s"

text \<open>
  JavaScript truthiness of a value that is a string or \<^verbatim>\<open>undefined\<close>: \<^verbatim>\<open>undefined\<close> and the
  empty string are falsy.
\<close>

fun truthy :: "string option \<Rightarrow> bool" where
  "truthy None = False"
| "truthy (Some s) = (s \<noteq> [])"

text \<open>\<^verbatim>\<open>x || ""\<close> on a string or \<^verbatim>\<open>undefined\<close>.\<close>

fun or_empty :: "string option \<Rightarrow> string" where
  "or_empty None = []"
| "or_empty (Some s) = s"

record KernelContext =
  invocation_id :: string

text \<open>The argument of \<^verbatim>\<open>kernel.browsers.create\<close>.\<close>

record BrowserCreateParams =
  param_invocation_id :: string
  param_profile_name :: "string option"
  param_save_changes :: bool
  param_stealth :: bool

text \<open>The fields the source reads of the object \<^verbatim>\<open>kernel.browsers.create\<close> resolves to.\<close>

record KernelBrowser =
  session_id :: "string option"
  cdp_ws_url :: "string option"
  browser_live_view_url :: "string option"

text \<open>The argument of \<^verbatim>\<open>startBrowserAgent\<close> (lines 181 to 198).\<close>

record AgentConfig =
  cfg_url :: string
  cfg_narrate :: bool
  cfg_llm_provider :: string
  cfg_llm_model :: string
  cfg_llm_apiKey :: "string option"
  cfg_virtual_width :: nat
  cfg_virtual_height :: nat
  cfg_cdp :: "string option"
  cfg_viewport_width :: nat
  cfg_viewport_height :: nat

text \<open>
  The agent handle: what each of its three methods does when called. \<^verbatim>\<open>act\<close> receives the
  task (possibly \<^verbatim>\<open>undefined\<close>), \<^verbatim>\<open>extract\<close> the instructions (the zod schema is a
  constant), \<^verbatim>\<open>stop\<close> nothing. (\<open>extract\<close> is a keyword of Isabelle, hence the prefix on
  the three fields.)

  \<^verbatim>\<open>act\<close> and \<^verbatim>\<open>extract\<close> are awaited, so a rejected promise is a throw at the call. The
  call \<^verbatim>\<open>agent.stop()\<close> of line 247 is not awaited, so three outcomes differ: the call
  throws; it returns a value or a promise that is fulfilled; it returns a promise that is
  rejected later, which nothing in the action handles.
\<close>

datatype stop_outcome =
    StopThrows thrown
  | StopSettles
  | StopRejects thrown

record Agent =
  agent_act :: "string option \<Rightarrow> thrown + jsval"
  agent_extract :: "string \<Rightarrow> thrown + jsval"
  agent_stop :: stop_outcome

text \<open>
  The environment of one invocation: the credential, the clock and random source read by
  \<^verbatim>\<open>create-profile-browser\<close>, and the behaviour of every collaborator entry point. Within
  one invocation each entry point is called at most once, so a function of the argument
  covers every behaviour.
\<close>

record Env =
  ANTHROPIC_API_KEY :: "string option"
  Date_now :: nat
  Math_random_base36 :: string
  profiles_create :: "string \<Rightarrow> thrown + unit"
  browsers_create :: "BrowserCreateParams \<Rightarrow> thrown + KernelBrowser"
  browsers_deleteByID :: "string \<Rightarrow> thrown + unit"
  startBrowserAgent :: "AgentConfig \<Rightarrow> thrown + Agent"

text \<open>
  The effects of an action, as they are observed from outside it. \<open>UnhandledRejection\<close> is
  a rejected promise that no handler receives: a fault that leaves the action although the
  action itself returns.
\<close>

datatype event =
    ProfilesCreate string
  | BrowsersCreate BrowserCreateParams
  | BrowsersDeleteByID string
  | StartBrowserAgent AgentConfig
  | AgentAct "string option"
  | AgentExtract string
  | AgentStop
  | ConsoleLog string
  | ConsoleError string
  | UnhandledRejection thrown

section \<open>Control flow: sequencing, throw, try, catch, finally\<close>

text \<open>
  A block of statements runs on the mutable locals of the action (\<open>'l\<close>) and the effects
  so far, and completes normally with a value or abruptly with a thrown value.
\<close>

type_synonym ('l, 'a) js = "'l \<times> event list \<Rightarrow> (thrown + 'a) \<times> 'l \<times> event list"

definition js_return :: "'a \<Rightarrow> ('l, 'a) js" where
  "js_return a = (\<lambda>s. (Inr a, s))"

definition js_throw :: "thrown \<Rightarrow> ('l, 'a) js" where
  "js_throw e = (\<lambda>s. (Inl e, s))"

definition js_bind :: "('l, 'a) js \<Rightarrow> ('a \<Rightarrow> ('l, 'b) js) \<Rightarrow> ('l, 'b) js" where
  "js_bind m f = (\<lambda>s. case m s of (Inl e, s') \<Rightarrow> (Inl e, s') | (Inr a, s') \<Rightarrow> f a s')"

text \<open>A call of a collaborator: the call is recorded, then it returns or throws.\<close>

definition call :: "event \<Rightarrow> (thrown + 'a) \<Rightarrow> ('l, 'a) js" where
  "call ev r = (\<lambda>(l, t). (r, l, t @ [ev]))"

definition console_log :: "string \<Rightarrow> ('l, unit) js" where
  "console_log msg = call (ConsoleLog msg) (Inr ())"

definition console_error :: "string \<Rightarrow> ('l, unit) js" where
  "console_error msg = call (ConsoleError msg) (Inr ())"

definition get_locals :: "('l, 'l) js" where
  "get_locals = (\<lambda>(l, t). (Inr l, l, t))"

definition set_locals :: "('l \<Rightarrow> 'l) \<Rightarrow> ('l, unit) js" where
  "set_locals f = (\<lambda>(l, t). (Inr (), f l, t))"

text \<open>\<^verbatim>\<open>try { m } catch (e) { h e }\<close>\<close>

definition try_catch :: "('l, 'a) js \<Rightarrow> (thrown \<Rightarrow> ('l, 'a) js) \<Rightarrow> ('l, 'a) js" where
  "try_catch m h = (\<lambda>s. case m s of (Inl e, s') \<Rightarrow> h e s' | (Inr a, s') \<Rightarrow> (Inr a, s'))"

text \<open>
  \<^verbatim>\<open>try { m } catch (e) { h e } finally { fin }\<close>: the finally block runs after the try
  block or the catch block has completed, whichever way; when it completes normally the
  earlier completion stands, when it throws its own throw replaces it.
\<close>

definition try_catch_finally ::
  "('l, 'a) js \<Rightarrow> (thrown \<Rightarrow> ('l, 'a) js) \<Rightarrow> ('l, unit) js \<Rightarrow> ('l, 'a) js" where
  "try_catch_finally m h fin =
     (\<lambda>s. case try_catch m h s of
        (r, s') \<Rightarrow> (case fin s' of (Inl e, s'') \<Rightarrow> (Inl e, s'') | (Inr u, s'') \<Rightarrow> (r, s'')))"

text \<open>An action body run from its initial locals with no effect yet.\<close>

definition run :: "'l \<Rightarrow> ('l, 'a) js \<Rightarrow> (thrown + 'a) \<times> event list" where
  "run l0 m = (case m (l0, []) of (r, l, t) \<Rightarrow> (r, t))"

section \<open>Action \<^verbatim>\<open>end-session-and-save-profile\<close> (lines 86 to 108)\<close>

record EndSessionAndSaveProfilePayload =
  payload_session_id :: "string option"

record EndSessionAndSaveProfileOutput =
  end_success :: bool

text \<open>
  The try statement of lines 95 to 103. Its catch block returns from the action; the
  value \<open>Some r\<close> is that early return, \<open>None\<close> is falling through to line 104.
\<close>

definition end_session_try ::
  "Env \<Rightarrow> string \<Rightarrow> (unit, EndSessionAndSaveProfileOutput option) js" where
  "end_session_try env sid =
     try_catch
       (js_bind (call (BrowsersDeleteByID sid) (browsers_deleteByID env sid)) (\<lambda>u.
        js_bind (console_log ''Browser session deleted and profile saved.'') (\<lambda>u.
        js_return None)))
       (\<lambda>error.
        js_bind (console_error ''Error deleting browser'') (\<lambda>u.
        js_return (Some \<lparr>end_success = False\<rparr>)))"

definition end_session_and_save_profile ::
  "Env \<Rightarrow> KernelContext \<Rightarrow> EndSessionAndSaveProfilePayload option \<Rightarrow>
     (thrown + EndSessionAndSaveProfileOutput) \<times> event list" where
  "end_session_and_save_profile env ctx payload =
     (case payload of
        None \<Rightarrow> (Inr \<lparr>end_success = False\<rparr>, [])
      | Some p \<Rightarrow>
          if \<not> truthy (payload_session_id p) then (Inr \<lparr>end_success = False\<rparr>, [])
          else
            run ()
              (js_bind (end_session_try env (or_empty (payload_session_id p))) (\<lambda>early.
               case early of
                 Some r \<Rightarrow> js_return r
               | None \<Rightarrow> js_return \<lparr>end_success = True\<rparr>)))"

section \<open>Action \<^verbatim>\<open>create-profile-browser\<close> (lines 28 to 65)\<close>

record CreateProfileBrowserOutput =
  out_browser_live_view_url :: string
  out_profile_name :: string
  out_session_id :: string

text \<open>The decimal rendering of a number inside a template literal.\<close>

fun string_of_nat :: "nat \<Rightarrow> string" where
  "string_of_nat n =
     (if n < 10 then [''0123456789'' ! n]
      else string_of_nat (n div 10) @ [''0123456789'' ! (n mod 10)])"

declare string_of_nat.simps [simp del]

text \<open>
  Lines 33 to 35. \<open>Math_random_base36\<close> is \<^verbatim>\<open>Math.random().toString(36)\<close>;
  \<^verbatim>\<open>substring(2, 8)\<close> keeps the characters at positions 2 to 7.
\<close>

definition profileName :: "Env \<Rightarrow> string" where
  "profileName env =
     ''profile_'' @ string_of_nat (Date_now env) @ ''_'' @ take 6 (drop 2 (Math_random_base36 env))"

definition create_params :: "KernelContext \<Rightarrow> string \<Rightarrow> BrowserCreateParams" where
  "create_params ctx name =
     \<lparr>param_invocation_id = invocation_id ctx, param_profile_name = Some name,
      param_save_changes = True, param_stealth = True\<rparr>"

text \<open>The try statement of lines 36 to 47: a conflict is logged, anything else is rethrown.\<close>

definition create_profile_try :: "Env \<Rightarrow> string \<Rightarrow> (unit, unit) js" where
  "create_profile_try env name =
     try_catch
       (js_bind (call (ProfilesCreate name) (profiles_create env name)) (\<lambda>profile.
        console_log ''Profile created''))
       (\<lambda>error.
        if instanceof_ConflictError error then console_log ''Profile already exists''
        else js_throw error)"

text \<open>Lines 49 to 63: the session is created outside any try statement.\<close>

definition create_browser_and_return ::
  "Env \<Rightarrow> KernelContext \<Rightarrow> string \<Rightarrow> (unit, CreateProfileBrowserOutput) js" where
  "create_browser_and_return env ctx name =
     js_bind (call (BrowsersCreate (create_params ctx name))
                (browsers_create env (create_params ctx name))) (\<lambda>kernelBrowser.
     js_bind (console_log ''Browser created'') (\<lambda>u.
     js_return
       \<lparr>out_browser_live_view_url = or_empty (browser_live_view_url kernelBrowser),
        out_profile_name = name,
        out_session_id = or_empty (session_id kernelBrowser)\<rparr>))"

definition create_profile_browser ::
  "Env \<Rightarrow> KernelContext \<Rightarrow> (thrown + CreateProfileBrowserOutput) \<times> event list" where
  "create_profile_browser env ctx =
     run ()
       (js_bind (create_profile_try env (profileName env)) (\<lambda>u.
        create_browser_and_return env ctx (profileName env)))"

section \<open>Action \<^verbatim>\<open>execute-task-with-profile\<close> (lines 135 to 256)\<close>

record ExecuteTaskWithProfilePayload =
  profile_name :: "string option"
  task :: "string option"
  url :: "string option"
  extract_instructions :: "string option"

text \<open>
  The returned object. \<open>None\<close> is a key the object literal does not have, or has with the
  value \<^verbatim>\<open>undefined\<close> (the two are the same JSON result); \<open>extracted_data = Some JNull\<close> is
  the key with the value \<^verbatim>\<open>null\<close>.
\<close>

fun json_field :: "jsval \<Rightarrow> jsval option" where
  "json_field JUndefined = None"
| "json_field v = Some v"

record ExecuteTaskWithProfileOutput =
  success :: bool
  task_result :: "jsval option"
  extracted_data :: "jsval option"
  error :: "string option"
  result_session_id :: "string option"

text \<open>The two variables declared before the try statement (lines 155 and 156).\<close>

record Locals =
  kernelBrowser :: "KernelBrowser option"
  agent :: "Agent option"

definition execute_params :: "KernelContext \<Rightarrow> ExecuteTaskWithProfilePayload \<Rightarrow> BrowserCreateParams" where
  "execute_params ctx p =
     \<lparr>param_invocation_id = invocation_id ctx, param_profile_name = profile_name p,
      param_save_changes = False, param_stealth = True\<rparr>"

definition agent_config :: "Env \<Rightarrow> ExecuteTaskWithProfilePayload \<Rightarrow> KernelBrowser \<Rightarrow> AgentConfig" where
  "agent_config env p kb =
     \<lparr>cfg_url = or_empty (url p), cfg_narrate = True,
      cfg_llm_provider = ''anthropic'', cfg_llm_model = ''claude-sonnet-4-20250514'',
      cfg_llm_apiKey = ANTHROPIC_API_KEY env,
      cfg_virtual_width = 1024, cfg_virtual_height = 768,
      cfg_cdp = cdp_ws_url kb,
      cfg_viewport_width = 1024, cfg_viewport_height = 768\<rparr>"

text \<open>
  Lines 206 to 223: \<^verbatim>\<open>extractedData\<close> starts as \<^verbatim>\<open>null\<close> and is assigned only when
  \<^verbatim>\<open>agent.extract\<close> returns; the inner catch block logs and goes on.
\<close>

definition extract_step :: "Agent \<Rightarrow> string option \<Rightarrow> (Locals, jsval) js" where
  "extract_step a instr =
     (if truthy instr then
        try_catch
          (js_bind (console_log ''Extracting data with instructions:'') (\<lambda>u.
           js_bind (call (AgentExtract (or_empty instr)) (agent_extract a (or_empty instr))) (\<lambda>d.
           js_bind (console_log ''Data extracted successfully'') (\<lambda>u.
           js_return d))))
          (\<lambda>extractError.
           js_bind (console_error ''Error extracting data:'') (\<lambda>u.
           js_return JNull))
      else js_return JNull)"

text \<open>The try block, lines 158 to 231.\<close>

definition execute_try ::
  "Env \<Rightarrow> KernelContext \<Rightarrow> ExecuteTaskWithProfilePayload \<Rightarrow> (Locals, ExecuteTaskWithProfileOutput) js" where
  "execute_try env ctx p =
     js_bind (call (BrowsersCreate (execute_params ctx p))
                (browsers_create env (execute_params ctx p))) (\<lambda>kb.
     js_bind (set_locals (\<lambda>l. l\<lparr>kernelBrowser := Some kb\<rparr>)) (\<lambda>u.
     js_bind (console_log ''Browser created with profile:'') (\<lambda>u.
     js_bind (call (StartBrowserAgent (agent_config env p kb))
                (startBrowserAgent env (agent_config env p kb))) (\<lambda>a.
     js_bind (set_locals (\<lambda>l. l\<lparr>agent := Some a\<rparr>)) (\<lambda>u.
     js_bind (console_log ''Browser agent started, executing task:'') (\<lambda>u.
     js_bind (call (AgentAct (task p)) (agent_act a (task p))) (\<lambda>result.
     js_bind (extract_step a (extract_instructions p)) (\<lambda>extractedData.
     js_return
       \<lparr>success = True, task_result = json_field result,
        extracted_data = json_field extractedData,
        error = None, result_session_id = session_id kb\<rparr>))))))))"

text \<open>\<^verbatim>\<open>kernelBrowser?.session_id\<close>\<close>

fun browser_session_id :: "KernelBrowser option \<Rightarrow> string option" where
  "browser_session_id None = None"
| "browser_session_id (Some kb) = session_id kb"

text \<open>The catch block, lines 232 to 238.\<close>

definition execute_catch :: "thrown \<Rightarrow> (Locals, ExecuteTaskWithProfileOutput) js" where
  "execute_catch err =
     js_bind (console_error ''Error executing task:'') (\<lambda>u.
     js_bind get_locals (\<lambda>l.
     js_return
       \<lparr>success = False, task_result = None, extracted_data = None,
        error = Some (error_message err),
        result_session_id = browser_session_id (kernelBrowser l)\<rparr>))"

text \<open>
  The finally block, lines 240 to 254. The session is deleted first; the agent is stopped
  inside the same try block, after the deletion has returned. A throw of the call
  \<^verbatim>\<open>agent.stop()\<close> is caught by that try block; a promise it returns is dropped, so its
  rejection comes after the rest of the block and is handled nowhere.
\<close>

fun stop_call :: "stop_outcome \<Rightarrow> thrown + unit" where
  "stop_call (StopThrows e) = Inl e"
| "stop_call StopSettles = Inr ()"
| "stop_call (StopRejects e) = Inr ()"

fun dropped_promise :: "stop_outcome \<Rightarrow> (Locals, unit) js" where
  "dropped_promise (StopRejects e) = call (UnhandledRejection e) (Inr ())"
| "dropped_promise outcome = js_return ()"

definition stop_agent :: "Agent option \<Rightarrow> (Locals, unit) js" where
  "stop_agent ag =
     (case ag of
        None \<Rightarrow> js_return ()
      | Some a \<Rightarrow>
          js_bind (call AgentStop (stop_call (agent_stop a))) (\<lambda>u.
          js_bind (console_log ''Browser agent stopped'') (\<lambda>u.
          dropped_promise (agent_stop a))))"

definition execute_finally :: "Env \<Rightarrow> (Locals, unit) js" where
  "execute_finally env =
     js_bind get_locals (\<lambda>l.
     if truthy (browser_session_id (kernelBrowser l)) then
       try_catch
         (js_bind (call (BrowsersDeleteByID (or_empty (browser_session_id (kernelBrowser l))))
                    (browsers_deleteByID env (or_empty (browser_session_id (kernelBrowser l))))) (\<lambda>u.
          js_bind (console_log ''Browser session cleaned up'') (\<lambda>u.
          stop_agent (agent l))))
         (\<lambda>cleanupError.
          console_error ''Error cleaning up browser session and stopping agent:'')
     else js_return ())"

definition execute_task_with_profile ::
  "Env \<Rightarrow> KernelContext \<Rightarrow> ExecuteTaskWithProfilePayload option \<Rightarrow>
     (thrown + ExecuteTaskWithProfileOutput) \<times> event list" where
  "execute_task_with_profile env ctx payload =
     (case payload of
        None \<Rightarrow>
          (Inr \<lparr>success = False, task_result = None, extracted_data = None,
                error = Some ''Payload is required with profile_name and task'',
                result_session_id = None\<rparr>, [])
      | Some p \<Rightarrow>
          if \<not> truthy (ANTHROPIC_API_KEY env) then
            (Inr \<lparr>success = False, task_result = None, extracted_data = None,
                  error = Some ''ANTHROPIC_API_KEY environment variable is not set'',
                  result_session_id = None\<rparr>, [])
          else
            run \<lparr>kernelBrowser = None, agent = None\<rparr>
              (try_catch_finally (execute_try env ctx p) execute_catch (execute_finally env)))"

section \<open>Action \<^verbatim>\<open>get-payload-schemas\<close> (lines 280 to 329)\<close>

record PayloadField =
  field_type :: string
  field_required :: bool
  field_description :: string

text \<open>\<open>schema_payload = None\<close> is \<^verbatim>\<open>payload: null\<close>.\<close>

record ActionSchema =
  schema_description :: string
  schema_payload :: "(string \<times> PayloadField) list option"

text \<open>The object literal, as the list of its keys and values in source order.\<close>

definition get_payload_schemas ::
  "KernelContext \<Rightarrow> (thrown + (string \<times> ActionSchema) list) \<times> event list" where
  "get_payload_schemas ctx =
     (Inr
       [(''create-profile-browser'',
           \<lparr>schema_description = ''Creates a new browser with a persistent profile for authentication'',
            schema_payload = None\<rparr>),
        (''end-session-and-save-profile'',
           \<lparr>schema_description = ''Ends a browser session and saves the profile state'',
            schema_payload = Some
              [(''session_id'',
                  \<lparr>field_type = ''string'', field_required = True,
                   field_description = ''The browser session ID to terminate''\<rparr>)]\<rparr>),
        (''execute-task-with-profile'',
           \<lparr>schema_description =
              ''Executes automated tasks using an existing profile with pre-loaded authentication'',
            schema_payload = Some
              [(''profile_name'',
                  \<lparr>field_type = ''string'', field_required = True,
                   field_description = ''The profile name to use (from create-profile-browser)''\<rparr>),
               (''task'',
                  \<lparr>field_type = ''string'', field_required = True,
                   field_description = ''Natural language description of the task to execute''\<rparr>),
               (''url'',
                  \<lparr>field_type = ''string'', field_required = False,
                   field_description = ''Optional starting URL for the browser''\<rparr>),
               (''extract_instructions'',
                  \<lparr>field_type = ''string'', field_required = False,
                   field_description =
                     ''Optional instructions for extracting structured data after task completion''\<rparr>)]\<rparr>),
        (''get-payload-schemas'',
           \<lparr>schema_description = ''Returns the expected payload format for each action'',
            schema_payload = None\<rparr>)],
      [])"

text \<open>Counting effects of one kind in a trace.\<close>

fun is_delete :: "event \<Rightarrow> bool" where
  "is_delete (BrowsersDeleteByID sid) = True"
| "is_delete ev = False"

fun is_stop :: "event \<Rightarrow> bool" where
  "is_stop AgentStop = True"
| "is_stop ev = False"

fun is_provisioning_call :: "event \<Rightarrow> bool" where
  "is_provisioning_call (ProfilesCreate n) = True"
| "is_provisioning_call (BrowsersCreate ps) = True"
| "is_provisioning_call (BrowsersDeleteByID sid) = True"
| "is_provisioning_call ev = False"

fun is_unhandled :: "event \<Rightarrow> bool" where
  "is_unhandled (UnhandledRejection e) = True"
| "is_unhandled ev = False"

definition count_events :: "(event \<Rightarrow> bool) \<Rightarrow> event list \<Rightarrow> nat" where
  "count_events P t = length (filter P t)"

text \<open>Whether an action returned an object (rather than threw).\<close>

fun returned :: "(thrown + 'a) \<times> event list \<Rightarrow> bool" where
  "returned (Inl e, t) = False"
| "returned (Inr a, t) = True"

section \<open>Concrete invocations\<close>

text \<open>
  One environment in which every collaborator succeeds, and the inputs of one invocation.
  The other environments used below differ from it in one entry point.
\<close>

definition ctx0 :: KernelContext where
  "ctx0 = \<lparr>invocation_id = ''inv-1''\<rparr>"

definition browser0 :: KernelBrowser where
  "browser0 =
     \<lparr>session_id = Some ''S2'', cdp_ws_url = Some ''wss://cdp'',
      browser_live_view_url = Some ''https://live''\<rparr>"

definition agent0 :: Agent where
  "agent0 =
     \<lparr>agent_act = (\<lambda>t. Inr (JStr ''done'')),
      agent_extract = (\<lambda>i. Inr (JObj [(''data'', JObj [])])),
      agent_stop = StopSettles\<rparr>"

definition env0 :: Env where
  "env0 =
     \<lparr>ANTHROPIC_API_KEY = Some ''key'', Date_now = 1234567890,
      Math_random_base36 = ''0.abc123xyz'',
      profiles_create = (\<lambda>n. Inr ()),
      browsers_create = (\<lambda>ps. Inr browser0),
      browsers_deleteByID = (\<lambda>sid. Inr ()),
      startBrowserAgent = (\<lambda>cfg. Inr agent0)\<rparr>"

definition payload0 :: ExecuteTaskWithProfilePayload where
  "payload0 =
     \<lparr>profile_name = Some ''profile_1234567890_abc123'',
      task = Some ''Go to ign.com and say the latest news stories'',
      url = None, extract_instructions = None\<rparr>"

text \<open>Everything succeeds but \<^verbatim>\<open>kernel.browsers.deleteByID\<close>, which throws.\<close>

definition env_delete_fails :: Env where
  "env_delete_fails = env0\<lparr>browsers_deleteByID := (\<lambda>sid. Inl (ErrorObj ''not found''))\<rparr>"

text \<open>\<^verbatim>\<open>kernel.profiles.create\<close> throws a conflict, or an error of another kind.\<close>

definition env_conflict :: Env where
  "env_conflict = env0\<lparr>profiles_create := (\<lambda>n. Inl (ConflictError ''profile exists''))\<rparr>"

definition env_profile_fails :: Env where
  "env_profile_fails = env0\<lparr>profiles_create := (\<lambda>n. Inl (ErrorObj ''unauthorized''))\<rparr>"

text \<open>The profile is created, then \<^verbatim>\<open>kernel.browsers.create\<close> throws.\<close>

definition env_browser_fails :: Env where
  "env_browser_fails = env0\<lparr>browsers_create := (\<lambda>ps. Inl (ErrorObj ''quota exceeded''))\<rparr>"

text \<open>The agent whose \<^verbatim>\<open>extract\<close> throws, and the environment that starts it.\<close>

definition agent_extract_fails :: Agent where
  "agent_extract_fails = agent0\<lparr>agent_extract := (\<lambda>i. Inl (ErrorObj ''no data''))\<rparr>"

definition env_extract_fails :: Env where
  "env_extract_fails = env0\<lparr>startBrowserAgent := (\<lambda>cfg. Inr agent_extract_fails)\<rparr>"

text \<open>
  The agent whose \<^verbatim>\<open>act\<close> resolves to \<^verbatim>\<open>undefined\<close> (a method declared to return
  \<^verbatim>\<open>Promise<void>\<close>) and whose \<^verbatim>\<open>extract\<close> throws.
\<close>

definition agent_void :: Agent where
  "agent_void = agent_extract_fails\<lparr>agent_act := (\<lambda>t. Inr JUndefined)\<rparr>"

definition env_void :: Env where
  "env_void = env0\<lparr>startBrowserAgent := (\<lambda>cfg. Inr agent_void)\<rparr>"

text \<open>The agent whose \<^verbatim>\<open>stop\<close> returns a promise that is rejected.\<close>

definition agent_stop_rejects :: Agent where
  "agent_stop_rejects = agent0\<lparr>agent_stop := StopRejects (ErrorObj ''browser closed'')\<rparr>"

definition env_stop_rejects :: Env where
  "env_stop_rejects = env0\<lparr>startBrowserAgent := (\<lambda>cfg. Inr agent_stop_rejects)\<rparr>"

section \<open>Properties\<close>

lemmas js_defs =
  js_return_def js_throw_def js_bind_def call_def console_log_def console_error_def
  get_locals_def set_locals_def try_catch_def try_catch_finally_def run_def

lemmas end_defs = end_session_and_save_profile_def end_session_try_def

lemmas create_defs =
  create_profile_browser_def create_profile_try_def create_browser_and_return_def

lemmas exec_defs =
  execute_task_with_profile_def execute_try_def execute_catch_def
  execute_finally_def stop_agent_def extract_step_def

subsection \<open>end-session-and-save-profile\<close>

text \<open>
  Claim C5. When the payload of end-session-and-save-profile is absent, or its session
  identifier is missing or the empty string, the action returns the object with
  success false and has no effect at all: in particular the provisioning service is not
  called.
\<close>

theorem end_session_missing_id:
  assumes "payload = None \<or> (\<exists>p. payload = Some p \<and> \<not> truthy (payload_session_id p))"
  shows "end_session_and_save_profile env ctx payload = (Inr \<lparr>end_success = False\<rparr>, [])"
  using assms by (auto simp: end_session_and_save_profile_def)

theorem end_session_missing_id_witness:
  "end_session_and_save_profile env0 ctx0 (Some \<lparr>payload_session_id = Some []\<rparr>)
     = (Inr \<lparr>end_success = False\<rparr>, [])"
proof -
  have "\<not> truthy (payload_session_id \<lparr>payload_session_id = Some []\<rparr>)"
    by simp
  then show ?thesis
    using end_session_missing_id [of "Some \<lparr>payload_session_id = Some []\<rparr>" env0 ctx0]
    by blast
qed

text \<open>
  Claim C4. When a session identifier is present and the termination call
  \<^verbatim>\<open>kernel.browsers.deleteByID\<close> throws, end-session-and-save-profile returns the object
  with success false; the thrown value does not leave the action. The effects are the
  one termination call and the error message on the console.
\<close>

theorem end_session_termination_failure:
  assumes "payload = Some p"
    and "truthy (payload_session_id p)"
    and "browsers_deleteByID env (or_empty (payload_session_id p)) = Inl e"
  shows "end_session_and_save_profile env ctx payload =
    (Inr \<lparr>end_success = False\<rparr>,
     [BrowsersDeleteByID (or_empty (payload_session_id p)),
      ConsoleError ''Error deleting browser''])"
  using assms by (simp add: end_defs js_defs)

theorem end_session_termination_failure_witness:
  "end_session_and_save_profile env_delete_fails ctx0 (Some \<lparr>payload_session_id = Some ''S1''\<rparr>)
     = (Inr \<lparr>end_success = False\<rparr>,
        [BrowsersDeleteByID ''S1'', ConsoleError ''Error deleting browser''])"
proof -
  let ?p = "\<lparr>payload_session_id = Some ''S1''\<rparr>"
  have h2: "truthy (payload_session_id ?p)"
    by simp
  have h3: "browsers_deleteByID env_delete_fails (or_empty (payload_session_id ?p))
              = Inl (ErrorObj ''not found'')"
    by (simp add: env_delete_fails_def)
  show ?thesis
    using end_session_termination_failure [OF refl h2 h3, of ctx0] by simp
qed

subsection \<open>create-profile-browser\<close>

text \<open>
  Claim C8. When \<^verbatim>\<open>kernel.profiles.create\<close> throws in create-profile-browser: if the thrown
  value is a ConflictError, the action logs "Profile already exists" and continues with the
  creation of the session, whose outcome is then the outcome of the action; a thrown value
  of any other kind is rethrown at once, so the action ends with it and the session is never
  requested.
\<close>

theorem create_profile_conflict_continues:
  assumes "profiles_create env (profileName env) = Inl e"
  shows "create_profile_browser env ctx =
     (if instanceof_ConflictError e then
        (case browsers_create env (create_params ctx (profileName env)) of
           Inl e' \<Rightarrow>
             (Inl e',
              [ProfilesCreate (profileName env), ConsoleLog ''Profile already exists'',
               BrowsersCreate (create_params ctx (profileName env))])
         | Inr kb \<Rightarrow>
             (Inr \<lparr>out_browser_live_view_url = or_empty (browser_live_view_url kb),
                   out_profile_name = profileName env,
                   out_session_id = or_empty (session_id kb)\<rparr>,
              [ProfilesCreate (profileName env), ConsoleLog ''Profile already exists'',
               BrowsersCreate (create_params ctx (profileName env)),
               ConsoleLog ''Browser created'']))
      else (Inl e, [ProfilesCreate (profileName env)]))"
  using assms by (simp add: create_defs js_defs split: sum.splits)

lemma profileName_env0: "profileName env0 = ''profile_1234567890_abc123''"
  by (simp add: profileName_def env0_def string_of_nat.simps)

lemma profileName_variants:
  "profileName env_conflict = profileName env0"
  "profileName env_profile_fails = profileName env0"
  by (simp_all add: profileName_def env_conflict_def env_profile_fails_def)

theorem create_profile_conflict_continues_witness:
  "create_profile_browser env_conflict ctx0 =
     (Inr \<lparr>out_browser_live_view_url = ''https://live'',
           out_profile_name = ''profile_1234567890_abc123'',
           out_session_id = ''S2''\<rparr>,
      [ProfilesCreate ''profile_1234567890_abc123'', ConsoleLog ''Profile already exists'',
       BrowsersCreate
         \<lparr>param_invocation_id = ''inv-1'',
          param_profile_name = Some ''profile_1234567890_abc123'',
          param_save_changes = True, param_stealth = True\<rparr>,
       ConsoleLog ''Browser created''])
   \<and> create_profile_browser env_profile_fails ctx0 =
     (Inl (ErrorObj ''unauthorized''), [ProfilesCreate ''profile_1234567890_abc123''])"
proof -
  have h1: "profiles_create env_conflict (profileName env_conflict)
              = Inl (ConflictError ''profile exists'')"
    by (simp add: env_conflict_def)
  have h2: "profiles_create env_profile_fails (profileName env_profile_fails)
              = Inl (ErrorObj ''unauthorized'')"
    by (simp add: env_profile_fails_def)
  have b: "browsers_create env_conflict ps = Inr browser0" for ps
    by (simp add: env_conflict_def env0_def)
  show ?thesis
    using create_profile_conflict_continues [OF h1, of ctx0]
      create_profile_conflict_continues [OF h2, of ctx0]
    by (simp add: b profileName_variants profileName_env0 create_params_def ctx0_def browser0_def)
qed

subsection \<open>execute-task-with-profile\<close>

text \<open>
  Claim C2. With a payload but no credential (the environment variable ANTHROPIC_API_KEY
  unset or empty), execute-task-with-profile returns the object with success false and the
  error message of line 151, and has no effect: the provisioning service receives no call
  and no session is created.
\<close>

theorem execute_without_credential:
  assumes "\<not> truthy (ANTHROPIC_API_KEY env)"
  shows "execute_task_with_profile env ctx (Some p) =
    (Inr \<lparr>success = False, task_result = None, extracted_data = None,
          error = Some ''ANTHROPIC_API_KEY environment variable is not set'',
          result_session_id = None\<rparr>, [])
    \<and> count_events is_provisioning_call (snd (execute_task_with_profile env ctx (Some p))) = 0"
  using assms by (simp add: execute_task_with_profile_def count_events_def)

theorem execute_without_credential_witness:
  "execute_task_with_profile (env0\<lparr>ANTHROPIC_API_KEY := None\<rparr>) ctx0 (Some payload0) =
    (Inr \<lparr>success = False, task_result = None, extracted_data = None,
          error = Some ''ANTHROPIC_API_KEY environment variable is not set'',
          result_session_id = None\<rparr>, [])"
proof -
  have h: "\<not> truthy (ANTHROPIC_API_KEY (env0\<lparr>ANTHROPIC_API_KEY := None\<rparr>))"
    by simp
  show ?thesis
    using execute_without_credential [OF h, of ctx0 payload0] by simp
qed

text \<open>
  Claim C6, as the code has it. When the session is created, the agent starts,
  \<^verbatim>\<open>agent.act\<close> returns, extraction instructions are given and \<^verbatim>\<open>agent.extract\<close> throws,
  execute-task-with-profile returns success true, extracted_data null and no error,
  whatever the cleanup does. task_result is the value \<^verbatim>\<open>agent.act\<close> resolved to, passed
  on as it is: the field is absent when that value is \<^verbatim>\<open>undefined\<close>.
\<close>

theorem extraction_failure_keeps_success:
  assumes "truthy (ANTHROPIC_API_KEY env)"
    and "browsers_create env (execute_params ctx p) = Inr kb"
    and "startBrowserAgent env (agent_config env p kb) = Inr a"
    and "agent_act a (task p) = Inr r"
    and "truthy (extract_instructions p)"
    and "agent_extract a (or_empty (extract_instructions p)) = Inl e"
  shows "fst (execute_task_with_profile env ctx (Some p)) =
    Inr \<lparr>success = True, task_result = json_field r, extracted_data = Some JNull,
         error = None, result_session_id = session_id kb\<rparr>"
  using assms
  by (cases "browsers_deleteByID env (or_empty (session_id kb))"; cases "agent_stop a")
     (simp_all add: exec_defs js_defs)

theorem extraction_failure_keeps_success_witness:
  "fst (execute_task_with_profile env_extract_fails ctx0
          (Some (payload0\<lparr>extract_instructions := Some ''List the headlines''\<rparr>))) =
    Inr \<lparr>success = True, task_result = Some (JStr ''done''), extracted_data = Some JNull,
         error = None, result_session_id = Some ''S2''\<rparr>"
proof -
  let ?p = "payload0\<lparr>extract_instructions := Some ''List the headlines''\<rparr>"
  have h1: "truthy (ANTHROPIC_API_KEY env_extract_fails)"
    by (simp add: env_extract_fails_def env0_def)
  have h2: "browsers_create env_extract_fails (execute_params ctx0 ?p) = Inr browser0"
    by (simp add: env_extract_fails_def env0_def)
  have h3: "startBrowserAgent env_extract_fails (agent_config env_extract_fails ?p browser0)
              = Inr agent_extract_fails"
    by (simp add: env_extract_fails_def)
  have h4: "agent_act agent_extract_fails (task ?p) = Inr (JStr ''done'')"
    by (simp add: agent_extract_fails_def agent0_def)
  have h5: "truthy (extract_instructions ?p)"
    by simp
  have h6: "agent_extract agent_extract_fails (or_empty (extract_instructions ?p))
              = Inl (ErrorObj ''no data'')"
    by (simp add: agent_extract_fails_def)
  show ?thesis
    using extraction_failure_keeps_success [OF h1 h2 h3 h4 h5 h6]
    by (simp add: browser0_def)
qed

text \<open>
  Against C6 as stated (task_result populated): the task execution succeeds by resolving
  to \<^verbatim>\<open>undefined\<close>, the extraction throws, and the returned object has success true,
  extracted_data null and no task_result.
\<close>

theorem extraction_failure_task_result_absent_counterexample:
  "agent_act agent_void (Some ''Go to ign.com and say the latest news stories'') = Inr JUndefined
   \<and> agent_extract agent_void ''List the headlines'' = Inl (ErrorObj ''no data'')
   \<and> execute_task_with_profile env_void ctx0
        (Some (payload0\<lparr>extract_instructions := Some ''List the headlines''\<rparr>)) =
      (Inr \<lparr>success = True, task_result = None, extracted_data = Some JNull,
            error = None, result_session_id = Some ''S2''\<rparr>,
       [BrowsersCreate (execute_params ctx0 payload0),
        ConsoleLog ''Browser created with profile:'',
        StartBrowserAgent (agent_config env_void payload0 browser0),
        ConsoleLog ''Browser agent started, executing task:'',
        AgentAct (Some ''Go to ign.com and say the latest news stories''),
        ConsoleLog ''Extracting data with instructions:'',
        AgentExtract ''List the headlines'',
        ConsoleError ''Error extracting data:'',
        BrowsersDeleteByID ''S2'',
        ConsoleLog ''Browser session cleaned up'',
        AgentStop,
        ConsoleLog ''Browser agent stopped''])"
  by (simp add: exec_defs js_defs execute_params_def agent_config_def
        env_void_def agent_void_def agent_extract_fails_def env0_def browser0_def agent0_def
        payload0_def)

text \<open>
  Claim C10. In a successful result of execute-task-with-profile, extracted_data is null
  both when no extraction instructions were given (the field is missing or empty) and when
  the extraction was attempted and threw: for the same environment and the same payload up
  to the instructions, the two returned objects are equal, so the result does not tell the
  two cases apart.
\<close>

theorem extracted_data_null_indistinguishable:
  assumes "truthy (ANTHROPIC_API_KEY env)"
    and "browsers_create env (execute_params ctx p) = Inr kb"
    and "startBrowserAgent env (agent_config env p kb) = Inr a"
    and "agent_act a (task p) = Inr r"
    and "\<not> truthy absent"
    and "i \<noteq> []"
    and "agent_extract a i = Inl e"
  shows "fst (execute_task_with_profile env ctx (Some (p\<lparr>extract_instructions := absent\<rparr>)))
       = fst (execute_task_with_profile env ctx (Some (p\<lparr>extract_instructions := Some i\<rparr>)))
     \<and> fst (execute_task_with_profile env ctx (Some (p\<lparr>extract_instructions := Some i\<rparr>)))
       = Inr \<lparr>success = True, task_result = json_field r, extracted_data = Some JNull,
              error = None, result_session_id = session_id kb\<rparr>"
  using assms
  by (cases "browsers_deleteByID env (or_empty (session_id kb))"; cases "agent_stop a")
     (simp_all add: exec_defs js_defs execute_params_def agent_config_def)

theorem extracted_data_null_indistinguishable_witness:
  "fst (execute_task_with_profile env_extract_fails ctx0
          (Some (payload0\<lparr>extract_instructions := None\<rparr>)))
     = Inr \<lparr>success = True, task_result = Some (JStr ''done''), extracted_data = Some JNull,
            error = None, result_session_id = Some ''S2''\<rparr>
   \<and> fst (execute_task_with_profile env_extract_fails ctx0
          (Some (payload0\<lparr>extract_instructions := Some ''List the headlines''\<rparr>)))
     = Inr \<lparr>success = True, task_result = Some (JStr ''done''), extracted_data = Some JNull,
            error = None, result_session_id = Some ''S2''\<rparr>"
proof -
  have h1: "truthy (ANTHROPIC_API_KEY env_extract_fails)"
    by (simp add: env_extract_fails_def env0_def)
  have h2: "browsers_create env_extract_fails (execute_params ctx0 payload0) = Inr browser0"
    by (simp add: env_extract_fails_def env0_def)
  have h3: "startBrowserAgent env_extract_fails (agent_config env_extract_fails payload0 browser0)
              = Inr agent_extract_fails"
    by (simp add: env_extract_fails_def)
  have h4: "agent_act agent_extract_fails (task payload0) = Inr (JStr ''done'')"
    by (simp add: agent_extract_fails_def agent0_def)
  have h5: "\<not> truthy None"
    by simp
  have h6: "''List the headlines'' \<noteq> []"
    by simp
  have h7: "agent_extract agent_extract_fails ''List the headlines'' = Inl (ErrorObj ''no data'')"
    by (simp add: agent_extract_fails_def)
  show ?thesis
    using extracted_data_null_indistinguishable [OF h1 h2 h3 h4 h5 h6 h7]
    by (simp add: browser0_def)
qed

text \<open>
  The calls of the cleanup, for every invocation of execute-task-with-profile that obtained
  a session identifier: \<^verbatim>\<open>kernel.browsers.deleteByID\<close> is called exactly once, with that
  identifier, on every path; \<^verbatim>\<open>agent.stop\<close> is called once when the agent was started and
  the deletion returned, and not at all otherwise.
\<close>

lemma cleanup_calls:
  assumes "truthy (ANTHROPIC_API_KEY env)"
    and "browsers_create env (execute_params ctx p) = Inr kb"
    and "truthy (session_id kb)"
  shows "filter is_delete (snd (execute_task_with_profile env ctx (Some p))) =
           [BrowsersDeleteByID (or_empty (session_id kb))]
       \<and> count_events is_stop (snd (execute_task_with_profile env ctx (Some p))) =
           (if isl (startBrowserAgent env (agent_config env p kb))
               \<or> isl (browsers_deleteByID env (or_empty (session_id kb)))
            then 0 else 1)"
proof (cases "startBrowserAgent env (agent_config env p kb)")
  case (Inl e)
  then show ?thesis using assms
    by (cases "browsers_deleteByID env (or_empty (session_id kb))")
       (simp_all add: exec_defs js_defs count_events_def)
next
  case started: (Inr a)
  show ?thesis
  proof (cases "agent_act a (task p)")
    case (Inl e)
    then show ?thesis using assms started
      by (cases "browsers_deleteByID env (or_empty (session_id kb))"; cases "agent_stop a")
         (simp_all add: exec_defs js_defs count_events_def)
  next
    case acted: (Inr r)
    show ?thesis
    proof (cases "truthy (extract_instructions p)")
      case False
      then show ?thesis using assms started acted
        by (cases "browsers_deleteByID env (or_empty (session_id kb))"; cases "agent_stop a")
           (simp_all add: exec_defs js_defs count_events_def)
    next
      case True
      then show ?thesis using assms started acted
        by (cases "browsers_deleteByID env (or_empty (session_id kb))"; cases "agent_stop a";
            cases "agent_extract a (or_empty (extract_instructions p))")
           (simp_all add: exec_defs js_defs count_events_def)
    qed
  qed
qed

text \<open>
  Claim C1, evaluated on the code. On the path of normal success (the session S2 is
  created, the agent starts, the task returns), the termination call of line 244 throws.
  The catch block of line 250 logs "Error cleaning up browser session and stopping agent:"
  and the call \<^verbatim>\<open>agent.stop()\<close> of line 247 is never reached: the session termination is
  invoked once, the agent stop not at all, and the action returns success true.
\<close>

theorem cleanup_skips_agent_stop:
  "browsers_create env_delete_fails (execute_params ctx0 payload0) = Inr browser0
   \<and> session_id browser0 = Some ''S2''
   \<and> execute_task_with_profile env_delete_fails ctx0 (Some payload0) =
      (Inr \<lparr>success = True, task_result = Some (JStr ''done''), extracted_data = Some JNull,
            error = None, result_session_id = Some ''S2''\<rparr>,
       [BrowsersCreate (execute_params ctx0 payload0),
        ConsoleLog ''Browser created with profile:'',
        StartBrowserAgent (agent_config env_delete_fails payload0 browser0),
        ConsoleLog ''Browser agent started, executing task:'',
        AgentAct (Some ''Go to ign.com and say the latest news stories''),
        BrowsersDeleteByID ''S2'',
        ConsoleError ''Error cleaning up browser session and stopping agent:''])
   \<and> count_events is_delete (snd (execute_task_with_profile env_delete_fails ctx0 (Some payload0))) = 1
   \<and> count_events is_stop (snd (execute_task_with_profile env_delete_fails ctx0 (Some payload0))) = 0"
  by (simp add: exec_defs js_defs count_events_def
        env_delete_fails_def env0_def browser0_def agent0_def payload0_def)

text \<open>
  Claim C7, evaluated on the code. The payload of the example in the source's own comment
  (line 116) has a task and no profile_name; a second payload has a profile_name and no
  task. With the credential configured and collaborators that accept what they are given,
  execute-task-with-profile passes the missing field on as \<^verbatim>\<open>undefined\<close> and returns
  success true: no check of the two required fields exists between lines 138 and 153.
\<close>

theorem execute_missing_field_not_reported:
  "execute_task_with_profile env0 ctx0
     (Some \<lparr>profile_name = None,
            task = Some ''Go to ign.com and say the latest news stories'',
            url = None, extract_instructions = None\<rparr>)
   = (Inr \<lparr>success = True, task_result = Some (JStr ''done''), extracted_data = Some JNull,
           error = None, result_session_id = Some ''S2''\<rparr>,
      [BrowsersCreate
         \<lparr>param_invocation_id = ''inv-1'', param_profile_name = None,
          param_save_changes = False, param_stealth = True\<rparr>,
       ConsoleLog ''Browser created with profile:'',
       StartBrowserAgent
         \<lparr>cfg_url = [], cfg_narrate = True,
          cfg_llm_provider = ''anthropic'', cfg_llm_model = ''claude-sonnet-4-20250514'',
          cfg_llm_apiKey = Some ''key'',
          cfg_virtual_width = 1024, cfg_virtual_height = 768,
          cfg_cdp = Some ''wss://cdp'',
          cfg_viewport_width = 1024, cfg_viewport_height = 768\<rparr>,
       ConsoleLog ''Browser agent started, executing task:'',
       AgentAct (Some ''Go to ign.com and say the latest news stories''),
       BrowsersDeleteByID ''S2'',
       ConsoleLog ''Browser session cleaned up'',
       AgentStop,
       ConsoleLog ''Browser agent stopped''])
   \<and> fst (execute_task_with_profile env0 ctx0
          (Some \<lparr>profile_name = Some ''profile_1234567890_abc123'', task = None,
                 url = None, extract_instructions = None\<rparr>))
   = Inr \<lparr>success = True, task_result = Some (JStr ''done''), extracted_data = Some JNull,
          error = None, result_session_id = Some ''S2''\<rparr>"
  by (simp add: exec_defs js_defs execute_params_def agent_config_def
        env0_def browser0_def agent0_def ctx0_def)

subsection \<open>get-payload-schemas\<close>

text \<open>
  Claim C9. get-payload-schemas returns a constant list of entries whose keys are exactly
  the four action names, each once; it has no effect; and its output does not depend on
  the invocation, so that repeated invocations return the same value.
\<close>

theorem get_payload_schemas_static:
  "\<exists>m. get_payload_schemas ctx = (Inr m, [])
     \<and> set (map fst m) =
         {''create-profile-browser'', ''end-session-and-save-profile'',
          ''execute-task-with-profile'', ''get-payload-schemas''}
     \<and> distinct (map fst m)
     \<and> get_payload_schemas ctx' = (Inr m, [])"
  by (simp add: get_payload_schemas_def)

subsection \<open>Faults at the boundary of the four actions\<close>

lemma end_session_returns:
  "returned (end_session_and_save_profile env ctx pl)
   \<and> count_events is_unhandled (snd (end_session_and_save_profile env ctx pl)) = 0"
proof (cases pl)
  case None
  then show ?thesis by (simp add: end_defs count_events_def)
next
  case (Some p)
  then show ?thesis
    by (cases "browsers_deleteByID env (or_empty (payload_session_id p))")
       (simp_all add: end_defs js_defs count_events_def)
qed

lemma execute_returns:
  "\<exists>r. fst (execute_task_with_profile env ctx pl) = Inr r \<and> success r = (error r = None)"
  by (auto simp: exec_defs js_defs
      split: option.splits sum.splits prod.splits if_splits stop_outcome.splits)

lemma create_profile_browser_returns:
  "returned (create_profile_browser env ctx) =
     ((case profiles_create env (profileName env) of
         Inl e \<Rightarrow> instanceof_ConflictError e
       | Inr u \<Rightarrow> True)
      \<and> \<not> isl (browsers_create env (create_params ctx (profileName env))))"
  by (auto simp: create_defs js_defs split: sum.splits)

lemma create_profile_browser_awaits_all:
  "count_events is_unhandled (snd (create_profile_browser env ctx)) = 0"
  by (auto simp: create_defs js_defs count_events_def split: sum.splits)

text \<open>
  Claim C3, as the code has it. end-session-and-save-profile and get-payload-schemas let no
  fault out: for every input and every behaviour of the collaborators they return an
  object and leave no rejected promise unhandled. execute-task-with-profile always
  completes by returning an object, never by throwing to its caller, and the object has
  success true exactly when it has no error field. create-profile-browser returns its
  object exactly when the profile creation returns or throws a ConflictError and the
  session creation returns; in every other case the thrown value leaves the action.
\<close>

theorem operations_return_or_rethrow:
  "returned (end_session_and_save_profile env ctx pl1)
 \<and> count_events is_unhandled (snd (end_session_and_save_profile env ctx pl1)) = 0
 \<and> returned (get_payload_schemas ctx)
 \<and> count_events is_unhandled (snd (get_payload_schemas ctx)) = 0
 \<and> returned (execute_task_with_profile env ctx pl2)
 \<and> (\<exists>r. fst (execute_task_with_profile env ctx pl2) = Inr r \<and> success r = (error r = None))
 \<and> returned (create_profile_browser env ctx) =
     ((case profiles_create env (profileName env) of
         Inl e \<Rightarrow> instanceof_ConflictError e
       | Inr u \<Rightarrow> True)
      \<and> \<not> isl (browsers_create env (create_params ctx (profileName env))))
 \<and> count_events is_unhandled (snd (create_profile_browser env ctx)) = 0"
proof -
  have a: "returned (end_session_and_save_profile env ctx pl1)"
    and a': "count_events is_unhandled (snd (end_session_and_save_profile env ctx pl1)) = 0"
    using end_session_returns [of env ctx pl1] by simp_all
  have b: "\<exists>r. fst (execute_task_with_profile env ctx pl2) = Inr r \<and> success r = (error r = None)"
    by (rule execute_returns)
  have b': "returned (execute_task_with_profile env ctx pl2)"
    using b by (cases "execute_task_with_profile env ctx pl2") auto
  have c: "returned (get_payload_schemas ctx)"
    and c': "count_events is_unhandled (snd (get_payload_schemas ctx)) = 0"
    by (simp_all add: get_payload_schemas_def count_events_def)
  have d: "returned (create_profile_browser env ctx) =
     ((case profiles_create env (profileName env) of
         Inl e \<Rightarrow> instanceof_ConflictError e
       | Inr u \<Rightarrow> True)
      \<and> \<not> isl (browsers_create env (create_params ctx (profileName env))))"
    by (rule create_profile_browser_returns)
  have d': "count_events is_unhandled (snd (create_profile_browser env ctx)) = 0"
    by (rule create_profile_browser_awaits_all)
  from a a' c c' b' b d d' show ?thesis
    by (intro conjI)
qed

theorem operations_return_or_rethrow_witness:
  "returned (end_session_and_save_profile env_stop_rejects ctx0
               (Some \<lparr>payload_session_id = Some ''S1''\<rparr>))
   \<and> returned (get_payload_schemas ctx0)
   \<and> returned (execute_task_with_profile env_stop_rejects ctx0 (Some payload0))
   \<and> returned (create_profile_browser env_stop_rejects ctx0)"
  using operations_return_or_rethrow
    [of env_stop_rejects ctx0 "Some \<lparr>payload_session_id = Some ''S1''\<rparr>" "Some payload0"]
  by (simp add: env_stop_rejects_def env0_def)

text \<open>
  Against C3 as stated: in create-profile-browser the call of line 50 is outside any try
  statement, so when \<^verbatim>\<open>kernel.browsers.create\<close> throws, the thrown value leaves the action
  and no object is returned.
\<close>

theorem create_profile_browser_throws_counterexample:
  "create_profile_browser env_browser_fails ctx0 =
     (Inl (ErrorObj ''quota exceeded''),
      [ProfilesCreate ''profile_1234567890_abc123'',
       ConsoleLog ''Profile created'',
       BrowsersCreate
         \<lparr>param_invocation_id = ''inv-1'',
          param_profile_name = Some ''profile_1234567890_abc123'',
          param_save_changes = True, param_stealth = True\<rparr>])
   \<and> \<not> returned (create_profile_browser env_browser_fails ctx0)"
  by (simp add: create_defs js_defs profileName_def string_of_nat.simps create_params_def
        ctx0_def env_browser_fails_def env0_def)

text \<open>
  The call of line 247 is the one call of the four actions that is not awaited. When the
  promise it returns is rejected, execute-task-with-profile has already logged "Browser
  agent stopped" and returns success true; the rejection is handled nowhere.
\<close>

lemma execute_unhandled_rejection:
  "execute_task_with_profile env_stop_rejects ctx0 (Some payload0) =
     (Inr \<lparr>success = True, task_result = Some (JStr ''done''), extracted_data = Some JNull,
           error = None, result_session_id = Some ''S2''\<rparr>,
      [BrowsersCreate (execute_params ctx0 payload0),
       ConsoleLog ''Browser created with profile:'',
       StartBrowserAgent (agent_config env_stop_rejects payload0 browser0),
       ConsoleLog ''Browser agent started, executing task:'',
       AgentAct (Some ''Go to ign.com and say the latest news stories''),
       BrowsersDeleteByID ''S2'',
       ConsoleLog ''Browser session cleaned up'',
       AgentStop,
       ConsoleLog ''Browser agent stopped'',
       UnhandledRejection (ErrorObj ''browser closed'')])"
  by (simp add: exec_defs js_defs execute_params_def agent_config_def
        env_stop_rejects_def agent_stop_rejects_def env0_def browser0_def agent0_def
        payload0_def)

end
